theory Spec2Isabelle
  imports Main "HOL-Library.Word"
begin

section \<open>Errors\<close>

text \<open>
  Go functions of the repository return \<open>(value, error)\<close>; a model returns
  \<open>error + value\<close>, with \<open>Inl\<close> for the error, and \<open>error option\<close> where the Go
  function returns an error only (\<open>None\<close> is \<open>nil\<close>). An index out of range is a
  run-time panic; it is a value of its own type.
\<close>

datatype panic = IndexOutOfRange

text \<open>
  The errors of \<open>database/sql\<close> and of the sqlite3 driver that the catalog code can
  meet. \<open>WrongArgCount want got\<close> is \<open>sql: expected %d arguments, got %d\<close>;
  \<open>UnsupportedUint64\<close> is the refusal of a \<open>uint64\<close> argument with the high bit
  set; \<open>ScanMismatch\<close> is any failure of \<open>Scan\<close> to convert or to count its
  destinations; \<open>Unrepresentable\<close> marks what the typed rows of this model cannot hold or its
  engine does not cover (no call of the repository reaches it).
\<close>

datatype sql_error =
    NoSuchTable string
  | TableExists string
  | NoSuchColumn string
  | WrongArgCount nat nat
  | UniqueConstraint "string list"
  | NotNullConstraint string
  | DatatypeMismatch
  | UnsupportedUint64
  | ScanMismatch
  | Unrepresentable

text \<open>
  \<open>ErrNotFound\<close> is the sentinel \<open>common.ErrNotFound\<close>. Every other constructor but
  two is one \<open>fmt.Errorf\<close> format of the source, carrying what its \<open>%v\<close> prints.
  \<open>BackendError\<close> stands for any other error that a backend adapter returns.

  Modelled from the spec: \<open>ErrConflict\<close> is the \<open>CONFLICT\<close> error kind of the
  specification (sections 4.2 and 7). Package \<open>internal/common\<close> is not among the
  sources, and no function of the sources refers to such a value.
\<close>

datatype error =
    ErrNotFound
  | ErrConflict
  | BackendError string
  | CouldntPrepareStatement sql_error
  | ErrorInQuery sql_error
  | CouldntInsertDirectory sql_error
  | CouldntInsertFile sql_error
  | RowShouldBeInserted
  | CouldntParseRow sql_error
  | CouldntGetNLinkCount error
  | CouldntParseRowCount
  | ErrorInInitQuery sql_error
  | CouldntExecuteInit sql_error
  | CouldntGetDBMetadata string error

section \<open>Package drive (src/internal/drive/drive.go)\<close>

text \<open>
  \<open>time.Duration\<close> counts nanoseconds in an \<open>int64\<close>; \<open>time.Minute\<close> is the
  constant of Go's standard library.
\<close>

type_synonym Duration = int




text \<open>
  \<open>type Metadata struct { Name string; Size uint64; Hash string }\<close>. The fields carry
  the prefix \<open>d_\<close> here, since the catalog packages have a \<open>Metadata\<close> of their own
  with the same field names.
\<close>

record drive_Metadata =
  d_Name :: string
  d_Size :: "64 word"
  d_Hash :: string

text \<open>
  \<open>type Drive interface\<close>: a backend is the record of its methods. Only the two
  methods that code of the sources calls are fields: \<open>GetProviderName()\<close> and
  \<open>GetFileMetadata(name)\<close>, which answers with the metadata, with
  \<open>common.ErrNotFound\<close> or with another error.
\<close>

record Drive =
  GetProviderName :: string
  GetFileMetadata :: "string \<Rightarrow> error + drive_Metadata"

text \<open>
  \<open>GetURL\<close>: \<open>name[0]\<close> panics on the empty string; \<open>name[1:]\<close> drops the first
  byte; \<open>fmt.Sprintf("%s://%s", scheme, name)\<close> concatenates.
\<close>

definition GetURL :: "Drive \<Rightarrow> string \<Rightarrow> panic + string" where
  "GetURL drv name =
     (let scheme = GetProviderName drv in
      case name of
        [] \<Rightarrow> Inl IndexOutOfRange
      | c # rest \<Rightarrow>
          (let name' = (if c = CHR ''/'' then rest else name)
           in Inr (scheme @ ''://'' @ name')))"

text \<open>
  Modelled from the spec: \<open>common.DatabaseFileName\<close> (package \<open>internal/common\<close> is
  not among the sources); the specification names the catalog object
  \<open>cloudstash.db\<close>.
\<close>

definition DatabaseFileName :: string where
  "DatabaseFileName = ''cloudstash.db''"

section \<open>Catalog discovery (func findDBDrive of package main)\<close>

text \<open>
  The \<open>for ... range drives\<close> loop: a probe that answers \<open>common.ErrNotFound\<close>
  moves on to the next drive, any other error leaves the function, and the
  first drive whose probe succeeds is returned.
\<close>

fun findDBDrive :: "Drive list \<Rightarrow> error + Drive" where
  "findDBDrive [] = Inl ErrNotFound"
| "findDBDrive (drv # drives) =
     (case GetFileMetadata drv DatabaseFileName of
        Inl err \<Rightarrow>
          (if err = ErrNotFound then findDBDrive drives
           else Inl (CouldntGetDBMetadata (GetProviderName drv) err))
      | Inr md \<Rightarrow> Inr drv)"

text \<open>
  Modelled from the spec: a backend adapter over a remote object store (the
  adapters of package \<open>drive\<close> are not among the sources). Each stored object has a
  size, a content hash and the time of its last modification, which is the
  "backend metadata" by which the specification orders the copies of the
  catalog; \<open>drive.Metadata\<close> has no field for it.
\<close>

record remote_object =
  obj_size :: "64 word"
  obj_hash :: string
  obj_modified :: nat

definition backend :: "string \<Rightarrow> (string \<rightharpoonup> remote_object) \<Rightarrow> Drive" where
  "backend provider store =
     \<lparr> GetProviderName = provider,
       GetFileMetadata = (\<lambda>name.
         case store name of
           None \<Rightarrow> Inl ErrNotFound
         | Some ob \<Rightarrow> Inr \<lparr> d_Name = name, d_Size = obj_size ob, d_Hash = obj_hash ob \<rparr>) \<rparr>"

section \<open>The remote lock (Lock and Unlock of the Drive interface)\<close>

text \<open>
  Modelled from the spec: \<open>Lock\<close> and \<open>Unlock\<close>. The sources declare them in the
  \<open>Drive\<close> interface with a comment; the adapters that implement them are not
  among the sources. The model follows section 4.1 of the specification and
  that comment.

  A backend is seen as the set of the names of its objects, at a time counted
  in nanoseconds. The mount that holds the lock is the environment:
  \<open>holder_unlocks\<close> is the time at which it removes its lock, \<open>None\<close> when it never
  does. \<open>sleep\<close> lets time pass; the \<open>backoff\<close> function gives the delay before
  each poll.
\<close>

record remote =
  objects :: "string set"
  clock :: Duration
  holder_unlocks :: "Duration option"



definition released :: "remote \<Rightarrow> Duration \<Rightarrow> bool" where
  "released w t = (case holder_unlocks w of None \<Rightarrow> False | Some u \<Rightarrow> u \<le> t)"





section \<open>The SQL statements of the catalog\<close>

subsection \<open>Values, columns, rows and tables\<close>

text \<open>
  Both catalog packages keep one table \<open>files\<close> in an SQLite database and reach
  it through \<open>database/sql\<close>. A value is an integer or a text; a column has the
  type, the \<open>NOT NULL\<close>, the \<open>PRIMARY KEY AUTOINCREMENT\<close> and the default of its
  declaration.
\<close>

datatype sqlval = SqlInt int | SqlText string

datatype affinity = INTEGER | TEXT

record column =
  col_name :: string
  col_type :: affinity
  col_notnull :: bool
  col_autoincrement :: bool
  col_default :: "sqlval option"

datatype table_constraint =
    Unique "string list"
  | ForeignKey string string string

text \<open>
  A row is typed: an \<open>INTEGER\<close> column holds an integer and a \<open>TEXT\<close> column a
  text, which is what every statement of the sources stores. The record has a
  field for each column that either package declares; a table shows only the
  columns of its own declaration (\<open>star\<close>), and the older table of
  \<open>internal/db\<close> has no column \<open>hash\<close>. The fields are the column names with the
  prefix \<open>r_\<close>. \<open>t_rows\<close> is in rowid order; \<open>t_seq\<close> is the largest rowid that
  AUTOINCREMENT has recorded.
\<close>

record row =
  r_inode :: int
  r_name :: string
  r_url :: string
  r_size :: int
  r_mode :: int
  r_parent :: int
  r_type :: int
  r_hash :: string

record table =
  t_columns :: "column list"
  t_constraints :: "table_constraint list"
  t_rows :: "row list"
  t_seq :: int

text \<open>
  The handle \<open>*sql.DB\<close>: the tables of the database file, and the engine's
  conversion of a text operand under NUMERIC affinity (\<open>numeric\<close>: an integer
  when SQLite reads the text as one, the text itself otherwise). The conversion
  belongs to the SQLite library, so it is a component of the handle and the
  theorems hold for any.
\<close>

record sql_DB =
  numeric :: "string \<Rightarrow> sqlval"
  tables :: "string \<rightharpoonup> table"

definition col_val :: "string \<Rightarrow> row \<Rightarrow> sqlval option" where
  "col_val c r =
     (if c = ''inode'' then Some (SqlInt (r_inode r))
      else if c = ''name'' then Some (SqlText (r_name r))
      else if c = ''url'' then Some (SqlText (r_url r))
      else if c = ''size'' then Some (SqlInt (r_size r))
      else if c = ''mode'' then Some (SqlInt (r_mode r))
      else if c = ''parent'' then Some (SqlInt (r_parent r))
      else if c = ''type'' then Some (SqlInt (r_type r))
      else if c = ''hash'' then Some (SqlText (r_hash r))
      else None)"

text \<open>\<open>SELECT *\<close> gives the columns in the order of the declaration.\<close>

definition star :: "table \<Rightarrow> row \<Rightarrow> sqlval list" where
  "star t r = List.map_filter (\<lambda>c. col_val (col_name c) r) (t_columns t)"

subsection \<open>Decimal text of an integer\<close>

definition digit_char :: "nat \<Rightarrow> char" where
  "digit_char d = char_of (48 + d)"

fun show_nat :: "nat \<Rightarrow> string" where
  "show_nat n =
     (if n < 10 then [digit_char n] else show_nat (n div 10) @ [digit_char (n mod 10)])"

declare show_nat.simps [simp del]

definition show_int :: "int \<Rightarrow> string" where
  "show_int i = (if i < 0 then CHR ''-'' # show_nat (nat (- i)) else show_nat (nat i))"

subsection \<open>Comparison and storage under column affinity\<close>

text \<open>
  \<open>column = ?\<close>: the first argument is the column's value, the second the bound
  operand. A text column turns an integer operand into its decimal text; an
  integer column applies NUMERIC affinity to a text operand.
\<close>

fun sql_eq :: "(string \<Rightarrow> sqlval) \<Rightarrow> sqlval \<Rightarrow> sqlval \<Rightarrow> bool" where
  "sql_eq num (SqlInt i) (SqlInt j) = (i = j)"
| "sql_eq num (SqlText s) (SqlText t) = (s = t)"
| "sql_eq num (SqlText s) (SqlInt j) = (s = show_int j)"
| "sql_eq num (SqlInt i) (SqlText t) = (num t = SqlInt i)"

definition to_text :: "sqlval \<Rightarrow> string" where
  "to_text v = (case v of SqlText s \<Rightarrow> s | SqlInt i \<Rightarrow> show_int i)"

definition to_int :: "(string \<Rightarrow> sqlval) \<Rightarrow> sqlval \<Rightarrow> sql_error + int" where
  "to_int num v =
     (case v of
        SqlInt i \<Rightarrow> Inr i
      | SqlText s \<Rightarrow> (case num s of SqlInt i \<Rightarrow> Inr i | SqlText x \<Rightarrow> Inl Unrepresentable))"

subsection \<open>Statements\<close>

text \<open>
  The statements that the sources prepare, as terms. An operand is a
  placeholder \<open>?\<close> or a literal. A condition list is the conjunction
  \<open>c1=o1 and c2=o2 ...\<close> of a \<open>WHERE\<close>; an insertion pairs each listed column with
  the operand at the same position of \<open>VALUES\<close>.
  \<^item> \<open>CreateTable t cols cons\<close>: \<open>CREATE TABLE t (cols, cons)\<close>
  \<^item> \<open>InsertInto t [(c1, o1), ...]\<close>: \<open>INSERT INTO t(c1, ...) VALUES(o1, ...)\<close>
  \<^item> \<open>SelectStar t conds\<close>: \<open>SELECT * FROM t WHERE conds\<close>
  \<^item> \<open>SelectStarLimitOffset t l o\<close>: \<open>SELECT * FROM t LIMIT l OFFSET o\<close>
  \<^item> \<open>SelectCount t conds\<close>: \<open>SELECT COUNT(*) FROM t WHERE conds\<close>
\<close>

datatype operand = Param | Lit sqlval

datatype stmt =
    CreateTable string "column list" "table_constraint list"
  | InsertInto string "(string \<times> operand) list"
  | SelectStar string "(string \<times> operand) list"
  | SelectStarLimitOffset string operand operand
  | SelectCount string "(string \<times> operand) list"

fun stmt_table :: "stmt \<Rightarrow> string" where
  "stmt_table (CreateTable tn cols cons) = tn"
| "stmt_table (InsertInto tn cvs) = tn"
| "stmt_table (SelectStar tn conds) = tn"
| "stmt_table (SelectStarLimitOffset tn l off) = tn"
| "stmt_table (SelectCount tn conds) = tn"

fun stmt_columns :: "stmt \<Rightarrow> string list" where
  "stmt_columns (CreateTable tn cols cons) = []"
| "stmt_columns (InsertInto tn cvs) = map fst cvs"
| "stmt_columns (SelectStar tn conds) = map fst conds"
| "stmt_columns (SelectStarLimitOffset tn l off) = []"
| "stmt_columns (SelectCount tn conds) = map fst conds"

fun stmt_operands :: "stmt \<Rightarrow> operand list" where
  "stmt_operands (CreateTable tn cols cons) = []"
| "stmt_operands (InsertInto tn cvs) = map snd cvs"
| "stmt_operands (SelectStar tn conds) = map snd conds"
| "stmt_operands (SelectStarLimitOffset tn l off) = [l, off]"
| "stmt_operands (SelectCount tn conds) = map snd conds"

text \<open>The number of placeholders, \<open>NumInput()\<close> of the driver's statement.\<close>

definition numInput :: "stmt \<Rightarrow> nat" where
  "numInput st = length (filter (\<lambda>x. x = Param) (stmt_operands st))"

text \<open>The arguments fill the placeholders from left to right.\<close>

fun bind_args :: "operand list \<Rightarrow> sqlval list \<Rightarrow> sqlval list" where
  "bind_args [] args = []"
| "bind_args (Lit v # ops) args = v # bind_args ops args"
| "bind_args (Param # ops) (a # args) = a # bind_args ops args"
| "bind_args (Param # ops) [] = []"

definition bound :: "(string \<times> operand) list \<Rightarrow> sqlval list \<Rightarrow> (string \<times> sqlval) list" where
  "bound cvs args = zip (map fst cvs) (bind_args (map snd cvs) args)"

text \<open>
  \<open>db.Prepare\<close> compiles the statement against the tables that exist:
  \<open>CREATE TABLE\<close> of an existing table, a statement on a missing table, and a
  column that the table does not declare are errors.
\<close>

definition Prepare :: "sql_DB \<Rightarrow> stmt \<Rightarrow> sql_error + stmt" where
  "Prepare db st =
     (case st of
        CreateTable tn cols cons \<Rightarrow>
          (if tables db tn \<noteq> None then Inl (TableExists tn) else Inr st)
      | _ \<Rightarrow>
          (case tables db (stmt_table st) of
             None \<Rightarrow> Inl (NoSuchTable (stmt_table st))
           | Some t \<Rightarrow>
               (case filter (\<lambda>c. c \<notin> set (map col_name (t_columns t))) (stmt_columns st) of
                  [] \<Rightarrow> Inr st
                | c # cs \<Rightarrow> Inl (NoSuchColumn c))))"

subsection \<open>Queries\<close>

definition holds :: "sql_DB \<Rightarrow> (string \<times> sqlval) list \<Rightarrow> row \<Rightarrow> bool" where
  "holds db conds r =
     list_all (\<lambda>(c, v). case col_val c r of
                           None \<Rightarrow> False
                         | Some x \<Rightarrow> sql_eq (numeric db) x v) conds"

definition limit_offset :: "int \<Rightarrow> int \<Rightarrow> 'a list \<Rightarrow> 'a list" where
  "limit_offset l off xs =
     (let ys = drop (nat off) xs in if l < 0 then ys else take (nat l) ys)"

text \<open>
  \<open>stmt.Query(args...)\<close>: \<open>database/sql\<close> first compares the number of arguments
  with \<open>NumInput()\<close>; then the statement runs. The result is the list of the
  result rows, each the list of its column values.
\<close>

definition Query :: "sql_DB \<Rightarrow> stmt \<Rightarrow> sqlval list \<Rightarrow> sql_error + sqlval list list" where
  "Query db st args =
     (if length args \<noteq> numInput st then Inl (WrongArgCount (numInput st) (length args))
      else case tables db (stmt_table st) of
        None \<Rightarrow> Inl (NoSuchTable (stmt_table st))
      | Some t \<Rightarrow>
          (case st of
             SelectStar tn conds \<Rightarrow>
               Inr (map (star t) (filter (holds db (bound conds args)) (t_rows t)))
           | SelectCount tn conds \<Rightarrow>
               Inr [[SqlInt (int (length (filter (holds db (bound conds args)) (t_rows t))))]]
           | SelectStarLimitOffset tn l off \<Rightarrow>
               (case map (to_int (numeric db)) (bind_args [l, off] args) of
                  [Inr n, Inr m] \<Rightarrow> Inr (map (star t) (limit_offset n m (t_rows t)))
                | _ \<Rightarrow> Inl DatatypeMismatch)
           | _ \<Rightarrow> Inl Unrepresentable))"

subsection \<open>Insertion\<close>

definition then_do :: "'e + 'a \<Rightarrow> ('a \<Rightarrow> 'e + 'b) \<Rightarrow> 'e + 'b" where
  "then_do m f = (case m of Inl e \<Rightarrow> Inl e | Inr x \<Rightarrow> f x)"

text \<open>
  AUTOINCREMENT: the new rowid is one more than the largest rowid that the
  table holds or has recorded.
\<close>

definition next_rowid :: "table \<Rightarrow> int" where
  "next_rowid t = max (t_seq t) (fold max (map r_inode (t_rows t)) 0) + 1"

text \<open>
  The value that an insertion stores in column \<open>c\<close>: the operand bound to it,
  else the next rowid for the AUTOINCREMENT key, else the declared default; a
  column with none of these would be NULL. \<open>Inr None\<close>: the table does not
  declare \<open>c\<close>.
\<close>

definition field_value ::
  "table \<Rightarrow> (string \<times> sqlval) list \<Rightarrow> string \<Rightarrow> sql_error + sqlval option" where
  "field_value t vals c =
     (case find (\<lambda>col. col_name col = c) (t_columns t) of
        None \<Rightarrow> Inr None
      | Some col \<Rightarrow>
          (case map_of vals c of
             Some v \<Rightarrow> Inr (Some v)
           | None \<Rightarrow>
               (if col_autoincrement col then Inr (Some (SqlInt (next_rowid t)))
                else case col_default col of
                  Some d \<Rightarrow> Inr (Some d)
                | None \<Rightarrow>
                    Inl (if col_notnull col then NotNullConstraint c else Unrepresentable))))"

definition text_field ::
  "table \<Rightarrow> (string \<times> sqlval) list \<Rightarrow> string \<Rightarrow> sql_error + string" where
  "text_field t vals c =
     then_do (field_value t vals c)
       (\<lambda>v. Inr (case v of None \<Rightarrow> [] | Some x \<Rightarrow> to_text x))"

definition int_field ::
  "(string \<Rightarrow> sqlval) \<Rightarrow> table \<Rightarrow> (string \<times> sqlval) list \<Rightarrow> string \<Rightarrow> sql_error + int" where
  "int_field num t vals c =
     then_do (field_value t vals c)
       (\<lambda>v. case v of None \<Rightarrow> Inr 0 | Some x \<Rightarrow> to_int num x)"

definition build_row ::
  "(string \<Rightarrow> sqlval) \<Rightarrow> table \<Rightarrow> (string \<times> sqlval) list \<Rightarrow> sql_error + row" where
  "build_row num t vals =
     then_do (int_field num t vals ''inode'') (\<lambda>i.
     then_do (text_field t vals ''name'') (\<lambda>n.
     then_do (text_field t vals ''url'') (\<lambda>u.
     then_do (int_field num t vals ''size'') (\<lambda>s.
     then_do (int_field num t vals ''mode'') (\<lambda>m.
     then_do (int_field num t vals ''parent'') (\<lambda>p.
     then_do (int_field num t vals ''type'') (\<lambda>ty.
     then_do (text_field t vals ''hash'') (\<lambda>h.
       Inr \<lparr> r_inode = i, r_name = n, r_url = u, r_size = s, r_mode = m,
             r_parent = p, r_type = ty, r_hash = h \<rparr>))))))))"

text \<open>
  The column lists that must stay unique: the primary key, and each
  \<open>UNIQUE(...)\<close>. A foreign key is not enforced (the connection is opened
  with SQLite's default, which does not enforce them).
\<close>

definition unique_keys :: "table \<Rightarrow> string list list" where
  "unique_keys t =
     map (\<lambda>col. [col_name col]) (filter col_autoincrement (t_columns t)) @
     concat (map (\<lambda>k. case k of Unique cs \<Rightarrow> [cs] | ForeignKey c rt rc \<Rightarrow> [])
              (t_constraints t))"

definition same_key :: "string list \<Rightarrow> row \<Rightarrow> row \<Rightarrow> bool" where
  "same_key cs r r' = list_all (\<lambda>c. col_val c r' = col_val c r) cs"

definition violations :: "table \<Rightarrow> row \<Rightarrow> string list list" where
  "violations t r = filter (\<lambda>cs. list_ex (same_key cs r) (t_rows t)) (unique_keys t)"

definition insert_row ::
  "sql_DB \<Rightarrow> string \<Rightarrow> (string \<times> sqlval) list \<Rightarrow> sql_error + sql_DB" where
  "insert_row db tn vals =
     (case tables db tn of
        None \<Rightarrow> Inl (NoSuchTable tn)
      | Some t \<Rightarrow>
          then_do (build_row (numeric db) t vals) (\<lambda>r.
            case violations t r of
              cs # others \<Rightarrow> Inl (UniqueConstraint cs)
            | [] \<Rightarrow>
                Inr (db\<lparr>tables := (tables db)(tn \<mapsto>
                       t\<lparr>t_rows := t_rows t @ [r],
                         t_seq := max (t_seq t) (r_inode r)\<rparr>)\<rparr>)))"

text \<open>
  \<open>stmt.Exec(args...)\<close>, with the same count of the arguments. A statement that
  fails leaves the database as it was.
\<close>

definition Exec :: "sql_DB \<Rightarrow> stmt \<Rightarrow> sqlval list \<Rightarrow> sql_error + sql_DB" where
  "Exec db st args =
     (if length args \<noteq> numInput st then Inl (WrongArgCount (numInput st) (length args))
      else case st of
        CreateTable tn cols cons \<Rightarrow>
          (if tables db tn \<noteq> None then Inl (TableExists tn)
           else Inr (db\<lparr>tables := (tables db)(tn \<mapsto>
                  \<lparr> t_columns = cols, t_constraints = cons, t_rows = [], t_seq = 0 \<rparr>)\<rparr>))
      | InsertInto tn cvs \<Rightarrow> insert_row db tn (bound cvs args)
      | _ \<Rightarrow> Inl Unrepresentable)"

section \<open>Package sqlite (src/unnamed/part_000)\<close>

text \<open>
  The functions of the client that the theorems are about: \<open>InitDB\<close>, \<open>Search\<close>,
  \<open>Get\<close>, \<open>GetChildren\<close>, \<open>AddDirectory\<close>, \<open>CreateFile\<close>, \<open>Insert\<close>, \<open>GetRows\<close>,
  \<open>fillNLink\<close> and \<open>parseRow\<close>, each with the statement it prepares and the
  arguments in the order of its call.
\<close>

text \<open>
  The type codes \<open>common.DrvFile\<close> and \<open>common.DrvFolder\<close> are constants of package
  \<open>internal/common\<close>, which is not among the sources: the functions that use them
  take the record of the two values as their first argument.
\<close>

record common =
  DrvFile :: int
  DrvFolder :: int

text \<open>\<open>type Client struct { db *sql.DB }\<close>\<close>

record Client =
  db :: sql_DB

text \<open>
  Modelled from the spec: \<open>type Metadata struct\<close> of package sqlite, whose
  declaration is not among the sources. The fields are those that \<open>parseRow\<close>,
  \<open>fillNLink\<close>, \<open>Update\<close> and \<open>Insert\<close> read and write; the specification lists
  the same attributes for a metadata entry (section 3).
\<close>

record Metadata =
  Inode :: int
  Name :: string
  URL :: string
  Size :: int
  Mode :: int
  Parent :: int
  Type :: int
  Hash :: string
  NLink :: int

definition files_columns :: "column list" where
  "files_columns =
     [ \<lparr> col_name = ''inode'', col_type = INTEGER, col_notnull = True,
         col_autoincrement = True, col_default = None \<rparr>,
       \<lparr> col_name = ''name'', col_type = TEXT, col_notnull = True,
         col_autoincrement = False, col_default = None \<rparr>,
       \<lparr> col_name = ''url'', col_type = TEXT, col_notnull = True,
         col_autoincrement = False, col_default = Some (SqlText []) \<rparr>,
       \<lparr> col_name = ''size'', col_type = INTEGER, col_notnull = True,
         col_autoincrement = False, col_default = Some (SqlInt 0) \<rparr>,
       \<lparr> col_name = ''mode'', col_type = INTEGER, col_notnull = True,
         col_autoincrement = False, col_default = None \<rparr>,
       \<lparr> col_name = ''parent'', col_type = INTEGER, col_notnull = True,
         col_autoincrement = False, col_default = None \<rparr>,
       \<lparr> col_name = ''type'', col_type = INTEGER, col_notnull = True,
         col_autoincrement = False, col_default = None \<rparr>,
       \<lparr> col_name = ''hash'', col_type = TEXT, col_notnull = True,
         col_autoincrement = False, col_default = Some (SqlText []) \<rparr> ]"

definition files_constraints :: "table_constraint list" where
  "files_constraints =
     [ Unique [''name'', ''parent''], ForeignKey ''parent'' ''folders'' ''id'' ]"


text \<open>
  The loop of \<open>InitDB\<close> over the statements. \<open>sql.Open\<close> on a path opens the
  database file there and creates an empty database when there is none: the
  model takes the database at the path, and gives it back with the error, since
  the statements that ran before a failure have taken effect. A file system
  that refuses the file is outside the model.
\<close>

fun run_schemas :: "stmt list \<Rightarrow> sql_DB \<Rightarrow> error option \<times> sql_DB" where
  "run_schemas [] d = (None, d)"
| "run_schemas (sqlStr # rest) d =
     (case Prepare d sqlStr of
        Inl err \<Rightarrow> (Some (ErrorInInitQuery err), d)
      | Inr st \<Rightarrow>
          (case Exec d st [] of
             Inl err \<Rightarrow> (Some (CouldntExecuteInit err), d)
           | Inr d' \<Rightarrow> run_schemas rest d'))"


text \<open>
  \<open>parseRow\<close>: \<open>Scan\<close> assigns the column values to its destinations by position.
  A result row of \<open>SELECT *\<close> on the table above has eight values, each of the
  class of its column, and every destination has the matching Go type. A row
  with another number of values is a failure of \<open>Scan\<close>; so is, in this model, a
  row whose values have other classes, which no table of the repository gives.
\<close>

definition parseRow :: "sqlval list \<Rightarrow> error + Metadata" where
  "parseRow row =
     (case row of
        [SqlInt i, SqlText n, SqlText u, SqlInt s, SqlInt m, SqlInt p, SqlInt t, SqlText h] \<Rightarrow>
          Inr \<lparr> Inode = i, Name = n, URL = u, Size = s, Mode = m,
                Parent = p, Type = t, Hash = h, NLink = 0 \<rparr>
      | _ \<Rightarrow> Inl (CouldntParseRow ScanMismatch))"

definition fillNLink :: "common \<Rightarrow> Client \<Rightarrow> Metadata \<Rightarrow> error + Metadata" where
  "fillNLink k c md =
     (if Type md = DrvFile k then Inr (md\<lparr>NLink := 1\<rparr>)
      else case Prepare (db c)
                  (SelectCount ''files'' [(''parent'', Param), (''type'', Param)]) of
        Inl err \<Rightarrow> Inl (CouldntPrepareStatement err)
      | Inr query \<Rightarrow>
          (case Query (db c) query [SqlInt (Inode md), SqlInt (DrvFolder k)] of
             Inl err \<Rightarrow> Inl (ErrorInQuery err)
           | Inr rows \<Rightarrow>
               (case rows of
                  [SqlInt count] # others \<Rightarrow> Inr (md\<lparr>NLink := count + 2\<rparr>)
                | _ \<Rightarrow> Inl CouldntParseRowCount)))"


definition Get :: "common \<Rightarrow> Client \<Rightarrow> int \<Rightarrow> error + Metadata" where
  "Get k c inode =
     (case Prepare (db c) (SelectStar ''files'' [(''inode'', Param)]) of
        Inl err \<Rightarrow> Inl (CouldntPrepareStatement err)
      | Inr query \<Rightarrow>
          (case Query (db c) query [SqlInt inode] of
             Inl err \<Rightarrow> Inl (ErrorInQuery err)
           | Inr rows \<Rightarrow>
               (case rows of
                  [] \<Rightarrow> Inl ErrNotFound
                | row # others \<Rightarrow>
                    (case parseRow row of
                       Inl err \<Rightarrow> Inl err
                     | Inr md \<Rightarrow>
                         (case fillNLink k c md of
                            Inl err \<Rightarrow> Inl (CouldntGetNLinkCount err)
                          | Inr md' \<Rightarrow> Inr md')))))"

text \<open>
  The loop \<open>for row.Next() { ... mdList = append(mdList, *md) }\<close> of \<open>GetChildren\<close>
  and of \<open>GetRows\<close>.
\<close>

fun collect_rows ::
  "common \<Rightarrow> Client \<Rightarrow> sqlval list list \<Rightarrow> Metadata list \<Rightarrow> error + Metadata list" where
  "collect_rows k c [] mdList = Inr mdList"
| "collect_rows k c (row # rows) mdList =
     (case parseRow row of
        Inl err \<Rightarrow> Inl err
      | Inr md \<Rightarrow>
          (case fillNLink k c md of
             Inl err \<Rightarrow> Inl (CouldntGetNLinkCount err)
           | Inr md' \<Rightarrow> collect_rows k c rows (mdList @ [md'])))"

definition GetChildren :: "common \<Rightarrow> Client \<Rightarrow> int \<Rightarrow> error + Metadata list" where
  "GetChildren k c parent =
     (case Prepare (db c) (SelectStar ''files'' [(''parent'', Param)]) of
        Inl err \<Rightarrow> Inl (CouldntPrepareStatement err)
      | Inr query \<Rightarrow>
          (case Query (db c) query [SqlInt parent] of
             Inl err \<Rightarrow> Inl (ErrorInQuery err)
           | Inr rows \<Rightarrow> collect_rows k c rows []))"

definition GetRows :: "common \<Rightarrow> Client \<Rightarrow> int \<Rightarrow> int \<Rightarrow> error + Metadata list" where
  "GetRows k c limit offset =
     (case Prepare (db c) (SelectStarLimitOffset ''files'' Param Param) of
        Inl err \<Rightarrow> Inl (CouldntPrepareStatement err)
      | Inr query \<Rightarrow>
          (case Query (db c) query [] of
             Inl err \<Rightarrow> Inl (ErrorInQuery err)
           | Inr rows \<Rightarrow> collect_rows k c rows []))"

text \<open>
  The functions that write return the client with the database after the call
  beside their result.
\<close>

definition AddDirectory ::
  "common \<Rightarrow> Client \<Rightarrow> int \<Rightarrow> string \<Rightarrow> int \<Rightarrow> (error + Metadata) \<times> Client" where
  "AddDirectory k c parent name mode =
     (case Prepare (db c)
             (InsertInto ''files''
                [(''name'', Param), (''mode'', Param), (''parent'', Param), (''type'', Param)]) of
        Inl err \<Rightarrow> (Inl (CouldntPrepareStatement err), c)
      | Inr query \<Rightarrow>
          (case Exec (db c) query
                  [SqlText name, SqlInt mode, SqlInt parent, SqlInt (DrvFolder k)] of
             Inl err \<Rightarrow> (Inl (CouldntInsertDirectory err), c)
           | Inr d' \<Rightarrow>
               (let c' = c\<lparr>db := d'\<rparr> in
                case Prepare (db c')
                       (SelectStar ''files'' [(''name'', Param), (''parent'', Param)]) of
                  Inl err \<Rightarrow> (Inl (CouldntPrepareStatement err), c')
                | Inr query' \<Rightarrow>
                    (case Query (db c') query' [SqlText name, SqlInt parent] of
                       Inl err \<Rightarrow> (Inl (ErrorInQuery err), c')
                     | Inr rows \<Rightarrow>
                         (case rows of
                            [] \<Rightarrow> (Inl RowShouldBeInserted, c')
                          | row # others \<Rightarrow>
                              (case parseRow row of
                                 Inl err \<Rightarrow> (Inl err, c')
                               | Inr md \<Rightarrow> (Inr (md\<lparr>NLink := 2\<rparr>), c')))))))"



section \<open>Package db (src/internal/db/client.go)\<close>

text \<open>
  The older catalog client. Its names carry the prefix \<open>db_\<close>. Its table has no
  column \<open>hash\<close>, and its root folder is its own parent. \<open>common.DRV_FOLDER\<close> is a
  constant of a package that is not among the sources: it is an argument.
\<close>

text \<open>
  \<open>type Metadata struct\<close> of package common, as the source file gives it; the
  fields carry the prefix \<open>c_\<close>. \<open>Parent\<close> is a \<open>uint64\<close>.
\<close>

record common_Metadata =
  c_Inode :: int
  c_Name :: string
  c_URL :: string
  c_Size :: int
  c_Mode :: int
  c_Type :: int
  c_Parent :: "64 word"
  c_NLink :: int

definition db_files_columns :: "column list" where
  "db_files_columns =
     [ \<lparr> col_name = ''inode'', col_type = INTEGER, col_notnull = True,
         col_autoincrement = True, col_default = None \<rparr>,
       \<lparr> col_name = ''name'', col_type = TEXT, col_notnull = True,
         col_autoincrement = False, col_default = None \<rparr>,
       \<lparr> col_name = ''url'', col_type = TEXT, col_notnull = True,
         col_autoincrement = False, col_default = Some (SqlText []) \<rparr>,
       \<lparr> col_name = ''size'', col_type = INTEGER, col_notnull = True,
         col_autoincrement = False, col_default = Some (SqlInt 0) \<rparr>,
       \<lparr> col_name = ''mode'', col_type = INTEGER, col_notnull = True,
         col_autoincrement = False, col_default = None \<rparr>,
       \<lparr> col_name = ''parent'', col_type = INTEGER, col_notnull = True,
         col_autoincrement = False, col_default = None \<rparr>,
       \<lparr> col_name = ''type'', col_type = INTEGER, col_notnull = True,
         col_autoincrement = False, col_default = None \<rparr> ]"

definition db_tableSchemas :: "int \<Rightarrow> stmt list" where
  "db_tableSchemas DRV_FOLDER =
     [ CreateTable ''files'' db_files_columns files_constraints,
       InsertInto ''files''
         [ (''inode'', Lit (SqlInt 1)), (''name'', Lit (SqlText [])),
           (''mode'', Lit (SqlInt 493)), (''parent'', Lit (SqlInt 1)),
           (''type'', Lit (SqlInt DRV_FOLDER)) ] ]"

definition db_InitDB :: "int \<Rightarrow> sql_DB \<Rightarrow> error option \<times> sql_DB" where
  "db_InitDB DRV_FOLDER d = run_schemas (db_tableSchemas DRV_FOLDER) d"

text \<open>
  An argument of Go type \<open>uint64\<close> reaches the driver as an \<open>int64\<close>; a value with
  the high bit set is refused.
\<close>

definition uint64_arg :: "64 word \<Rightarrow> sql_error + sqlval" where
  "uint64_arg w = (if 2 ^ 63 \<le> uint w then Inl UnsupportedUint64 else Inr (SqlInt (uint w)))"

fun convert_args :: "(sql_error + sqlval) list \<Rightarrow> sql_error + sqlval list" where
  "convert_args [] = Inr []"
| "convert_args (a # as) =
     (case a of
        Inl err \<Rightarrow> Inl err
      | Inr v \<Rightarrow> (case convert_args as of Inl err \<Rightarrow> Inl err | Inr vs \<Rightarrow> Inr (v # vs)))"

text \<open>
  \<open>stmt.QueryRow(args...)\<close> gives a \<open>*sql.Row\<close>, which keeps the error of the query,
  if any, for \<open>Scan\<close>.
\<close>

definition QueryRow ::
  "sql_DB \<Rightarrow> stmt \<Rightarrow> (sql_error + sqlval) list \<Rightarrow> sql_error + sqlval list list" where
  "QueryRow d st args = then_do (convert_args args) (Query d st)"

text \<open>
  \<open>parseRow\<close>: \<open>row.Scan(&md.Inode, &md.Name, &md.URL, &md.Size, &md.Mode, &md.Type,
  &md.Parent)\<close>. \<open>Scan\<close> gives the error that the row keeps, \<open>sql.ErrNoRows\<close> when
  the query has no row, and otherwise assigns the values of the first row by
  position: the sixth to \<open>Type\<close>, the seventh to \<open>Parent\<close>, which as a \<open>uint64\<close> takes
  no negative value.
\<close>

definition db_parseRow :: "sql_error + sqlval list list \<Rightarrow> error + common_Metadata" where
  "db_parseRow row =
     (case row of
        Inl err \<Rightarrow> Inl (ErrorInQuery err)
      | Inr [] \<Rightarrow> Inl ErrNotFound
      | Inr (vals # others) \<Rightarrow>
          (case vals of
             [SqlInt i, SqlText n, SqlText u, SqlInt s, SqlInt m, SqlInt t, SqlInt p] \<Rightarrow>
               (if 0 \<le> p \<and> p < 2 ^ 64
                then Inr \<lparr> c_Inode = i, c_Name = n, c_URL = u, c_Size = s, c_Mode = m,
                           c_Type = t, c_Parent = word_of_int p, c_NLink = 0 \<rparr>
                else Inl (ErrorInQuery ScanMismatch))
           | _ \<Rightarrow> Inl (ErrorInQuery ScanMismatch)))"

definition db_Search :: "Client \<Rightarrow> 64 word \<Rightarrow> string \<Rightarrow> error + common_Metadata" where
  "db_Search c parent name =
     (case Prepare (db c)
             (SelectStar ''files'' [(''name'', Param), (''parent'', Param)]) of
        Inl err \<Rightarrow> Inl (CouldntPrepareStatement err)
      | Inr query \<Rightarrow>
          db_parseRow (QueryRow (db c) query [uint64_arg parent, Inr (SqlText name)]))"

definition db_Get :: "Client \<Rightarrow> 64 word \<Rightarrow> error + common_Metadata" where
  "db_Get c inode =
     (case Prepare (db c) (SelectStar ''files'' [(''inode'', Param)]) of
        Inl err \<Rightarrow> Inl (CouldntPrepareStatement err)
      | Inr query \<Rightarrow> db_parseRow (QueryRow (db c) query [uint64_arg inode]))"

section \<open>Catalog states\<close>

text \<open>
  \<open>fresh\<close>: the empty database that \<open>sql.Open\<close> creates at a path where there is no
  file. \<open>catalog\<close>: the client's database holds the table \<open>files\<close> as package
  sqlite declares it; \<open>db_catalog\<close>: as package db declares it. \<open>files_rows\<close>: the
  rows of that table.
\<close>

definition fresh :: "(string \<Rightarrow> sqlval) \<Rightarrow> sql_DB" where
  "fresh num = \<lparr> numeric = num, tables = Map.empty \<rparr>"

definition files_rows :: "Client \<Rightarrow> row list" where
  "files_rows c = (case tables (db c) ''files'' of None \<Rightarrow> [] | Some t \<Rightarrow> t_rows t)"

definition catalog :: "Client \<Rightarrow> bool" where
  "catalog c =
     (case tables (db c) ''files'' of
        None \<Rightarrow> False
      | Some t \<Rightarrow> t_columns t = files_columns \<and> t_constraints t = files_constraints)"

definition db_catalog :: "Client \<Rightarrow> bool" where
  "db_catalog c =
     (case tables (db c) ''files'' of
        None \<Rightarrow> False
      | Some t \<Rightarrow> t_columns t = db_files_columns \<and> t_constraints t = files_constraints)"

text \<open>The child folders of an inode: the rows that \<open>fillNLink\<close> counts.\<close>

definition child_folders :: "common \<Rightarrow> Client \<Rightarrow> int \<Rightarrow> row list" where
  "child_folders k c inode =
     filter (\<lambda>r. r_parent r = inode \<and> r_type r = DrvFolder k) (files_rows c)"

text \<open>
  What \<open>parseRow\<close> makes of a row of the table: in package sqlite each field
  takes the column of its name; in package db \<open>Type\<close> takes the column \<open>parent\<close>
  and \<open>Parent\<close> the column \<open>type\<close>.
\<close>

definition row_md :: "row \<Rightarrow> Metadata" where
  "row_md r =
     \<lparr> Inode = r_inode r, Name = r_name r, URL = r_url r, Size = r_size r,
       Mode = r_mode r, Parent = r_parent r, Type = r_type r, Hash = r_hash r,
       NLink = 0 \<rparr>"

definition db_row_md :: "row \<Rightarrow> common_Metadata" where
  "db_row_md r =
     \<lparr> c_Inode = r_inode r, c_Name = r_name r, c_URL = r_url r, c_Size = r_size r,
       c_Mode = r_mode r, c_Type = r_parent r, c_Parent = word_of_int (r_type r),
       c_NLink = 0 \<rparr>"

text \<open>
  \<open>new_row\<close>: the row that an insertion without an inode adds to table \<open>t\<close>;
  \<open>with_row\<close>: the client after that row has been added; \<open>root_row\<close>: the root
  folder that \<open>InitDB\<close> inserts, up to its parent and its type code.
\<close>

definition new_row ::
  "table \<Rightarrow> string \<Rightarrow> string \<Rightarrow> int \<Rightarrow> int \<Rightarrow> int \<Rightarrow> int \<Rightarrow> string \<Rightarrow> row" where
  "new_row t n u s m p ty h =
     \<lparr> r_inode = next_rowid t, r_name = n, r_url = u, r_size = s, r_mode = m,
       r_parent = p, r_type = ty, r_hash = h \<rparr>"

definition with_row :: "Client \<Rightarrow> row \<Rightarrow> Client" where
  "with_row c r =
     (case tables (db c) ''files'' of
        None \<Rightarrow> c
      | Some t \<Rightarrow>
          c\<lparr>db := (db c)\<lparr>tables := (tables (db c))(''files'' \<mapsto>
                t\<lparr>t_rows := t_rows t @ [r], t_seq := max (t_seq t) (r_inode r)\<rparr>)\<rparr>\<rparr>)"

definition root_row :: "int \<Rightarrow> int \<Rightarrow> row" where
  "root_row p ty =
     \<lparr> r_inode = 1, r_name = [], r_url = [], r_size = 0, r_mode = 493,
       r_parent = p, r_type = ty, r_hash = [] \<rparr>"

subsection \<open>Concrete states for the examples\<close>

text \<open>
  An instance of the engine's conversion for the examples: it reads a plain
  decimal integer, with an optional minus sign, and leaves any other text.
\<close>

definition digit_of :: "char \<Rightarrow> nat option" where
  "digit_of ch =
     (let n = (of_char ch :: nat) in if 48 \<le> n \<and> n \<le> 57 then Some (n - 48) else None)"

fun parse_digits :: "nat \<Rightarrow> string \<Rightarrow> nat option" where
  "parse_digits acc [] = Some acc"
| "parse_digits acc (ch # cs) =
     (case digit_of ch of None \<Rightarrow> None | Some d \<Rightarrow> parse_digits (10 * acc + d) cs)"

definition decimal_numeric :: "string \<Rightarrow> sqlval" where
  "decimal_numeric s =
     (case s of
        [] \<Rightarrow> SqlText s
      | ch # cs \<Rightarrow>
          (if ch = CHR ''-'' \<and> cs \<noteq> []
           then (case parse_digits 0 cs of None \<Rightarrow> SqlText s | Some n \<Rightarrow> SqlInt (- int n))
           else (case parse_digits 0 s of None \<Rightarrow> SqlText s | Some n \<Rightarrow> SqlInt (int n))))"

definition example_codes :: common where
  "example_codes = \<lparr> DrvFile = 0, DrvFolder = 1 \<rparr>"

text \<open>
  A catalog of package sqlite: the root, a folder \<open>docs\<close> and a file \<open>a.txt\<close> in
  the root, and a folder \<open>old\<close> in \<open>docs\<close>.
\<close>

definition example_rows :: "row list" where
  "example_rows =
     [ \<lparr> r_inode = 1, r_name = [], r_url = [], r_size = 0, r_mode = 493,
         r_parent = 0, r_type = 1, r_hash = [] \<rparr>,
       \<lparr> r_inode = 2, r_name = ''docs'', r_url = [], r_size = 0, r_mode = 493,
         r_parent = 1, r_type = 1, r_hash = [] \<rparr>,
       \<lparr> r_inode = 3, r_name = ''a.txt'', r_url = ''dropbox://x1'', r_size = 0, r_mode = 420,
         r_parent = 1, r_type = 0, r_hash = ''h1'' \<rparr>,
       \<lparr> r_inode = 4, r_name = ''old'', r_url = [], r_size = 0, r_mode = 493,
         r_parent = 2, r_type = 1, r_hash = [] \<rparr> ]"

definition example_client :: Client where
  "example_client =
     \<lparr> db = \<lparr> numeric = decimal_numeric,
              tables = [''files'' \<mapsto>
                \<lparr> t_columns = files_columns, t_constraints = files_constraints,
                  t_rows = example_rows, t_seq = 4 \<rparr>] \<rparr> \<rparr>"

text \<open>
  A catalog of package db with the same folder \<open>docs\<close> in the root, and a row
  named \<open>1\<close> under inode 7.
\<close>

definition db_example_rows :: "row list" where
  "db_example_rows =
     [ \<lparr> r_inode = 1, r_name = [], r_url = [], r_size = 0, r_mode = 493,
         r_parent = 1, r_type = 1, r_hash = [] \<rparr>,
       \<lparr> r_inode = 2, r_name = ''docs'', r_url = [], r_size = 0, r_mode = 493,
         r_parent = 1, r_type = 1, r_hash = [] \<rparr>,
       \<lparr> r_inode = 3, r_name = ''1'', r_url = ''dropbox://x1'', r_size = 0, r_mode = 420,
         r_parent = 7, r_type = 0, r_hash = [] \<rparr> ]"

definition db_example_client :: Client where
  "db_example_client =
     \<lparr> db = \<lparr> numeric = decimal_numeric,
              tables = [''files'' \<mapsto>
                \<lparr> t_columns = db_files_columns, t_constraints = files_constraints,
                  t_rows = db_example_rows, t_seq = 3 \<rparr>] \<rparr> \<rparr>"

text \<open>Two backends that both hold the catalog, the second one the newer copy.\<close>

definition catalog_copy :: "nat \<Rightarrow> (string \<rightharpoonup> remote_object)" where
  "catalog_copy t =
     [DatabaseFileName \<mapsto> \<lparr> obj_size = 8192, obj_hash = ''h'', obj_modified = t \<rparr>]"

definition dropbox_older :: Drive where
  "dropbox_older = backend ''dropbox'' (catalog_copy 1)"

definition gdrive_newer :: Drive where
  "gdrive_newer = backend ''gdrive'' (catalog_copy 2)"

definition empty_backend :: Drive where
  "empty_backend = backend ''onedrive'' Map.empty"

definition failing_backend :: Drive where
  "failing_backend =
     \<lparr> GetProviderName = ''gdrive'',
       GetFileMetadata = (\<lambda>name. Inl (BackendError ''timeout'')) \<rparr>"



section \<open>Theorems\<close>

subsection \<open>GetURL\<close>

text \<open>
  Claim C9. For every drive and every non-empty object name, \<open>GetURL\<close> returns
  the provider name of the drive, then \<open>://\<close>, then the name without one
  leading slash, if it has one.
\<close>

theorem GetURL_format:
  "name \<noteq> [] \<Longrightarrow>
   GetURL drv name =
     Inr (GetProviderName drv @ ''://'' @ (if hd name = CHR ''/'' then tl name else name))"
  by (cases name) (simp_all add: GetURL_def)

theorem GetURL_format_witness:
  "''/filename.ext'' \<noteq> [] \<and>
   GetURL dropbox_older ''/filename.ext'' = Inr ''dropbox://filename.ext'' \<and>
   GetURL dropbox_older ''filename.ext'' = Inr ''dropbox://filename.ext''"
  using GetURL_format [of "''/filename.ext''" dropbox_older]
        GetURL_format [of "''filename.ext''" dropbox_older]
  by (simp add: dropbox_older_def backend_def)

text \<open>
  Claim C10. \<open>GetURL\<close> reads \<open>name[0]\<close> without a check: on the empty name the
  index is out of range and the function panics; on every non-empty name the
  read is in range and \<open>GetURL\<close> returns a URL.
\<close>

theorem GetURL_index_in_bounds:
  "GetURL drv [] = Inl IndexOutOfRange \<and>
   (name \<noteq> [] \<longrightarrow> (\<exists>u. GetURL drv name = Inr u))"
  by (cases name) (simp_all add: GetURL_def)

theorem GetURL_index_in_bounds_witness:
  "GetURL gdrive_newer [] = Inl IndexOutOfRange \<and> ''/'' \<noteq> [] \<and>
   (\<exists>u. GetURL gdrive_newer ''/'' = Inr u)"
  using GetURL_index_in_bounds [of gdrive_newer "''/''"] by simp

subsection \<open>Catalog discovery\<close>

lemma findDBDrive_skip:
  "\<forall>d \<in> set pre. GetFileMetadata d DatabaseFileName = Inl ErrNotFound \<Longrightarrow>
   findDBDrive (pre @ rest) = findDBDrive rest"
  by (induction pre) simp_all

text \<open>
  Claim C6, as stated, fails: when more than one backend holds
  \<open>cloudstash.db\<close>, the claim selects the backend with the newest copy. Here
  both backends hold the object, the copy on the second one is the newer, and
  \<open>findDBDrive\<close> returns the first.
\<close>

theorem findDBDrive_newest_counterexample:
  "findDBDrive [dropbox_older, gdrive_newer] = Inr dropbox_older \<and>
   dropbox_older \<noteq> gdrive_newer \<and>
   map_option obj_modified (catalog_copy 1 DatabaseFileName) = Some 1 \<and>
   map_option obj_modified (catalog_copy 2 DatabaseFileName) = Some 2"
  by (simp add: dropbox_older_def gdrive_newer_def backend_def catalog_copy_def)

text \<open>
  Claim C6, amended. \<open>findDBDrive\<close> probes the backends in the order of the list
  for the object \<open>cloudstash.db\<close>. When every backend answers
  \<open>common.ErrNotFound\<close>, the result is \<open>common.ErrNotFound\<close>. Otherwise the first
  backend that gives another answer decides: when it holds the object it is
  the catalog drive, whatever the later backends hold, and when its probe fails
  the failure is returned.
\<close>

theorem findDBDrive_first_answer:
  "(\<forall>d \<in> set pre. GetFileMetadata d DatabaseFileName = Inl ErrNotFound) \<Longrightarrow>
   findDBDrive pre = Inl ErrNotFound \<and>
   (GetFileMetadata drv DatabaseFileName = Inr md \<longrightarrow>
      findDBDrive (pre @ drv # post) = Inr drv) \<and>
   (GetFileMetadata drv DatabaseFileName = Inl err \<and> err \<noteq> ErrNotFound \<longrightarrow>
      findDBDrive (pre @ drv # post) =
        Inl (CouldntGetDBMetadata (GetProviderName drv) err))"
  using findDBDrive_skip [of pre "[]"] findDBDrive_skip [of pre "drv # post"]
  by simp

theorem findDBDrive_first_answer_witness:
  "GetFileMetadata empty_backend DatabaseFileName = Inl ErrNotFound \<and>
   findDBDrive [empty_backend] = Inl ErrNotFound \<and>
   GetFileMetadata gdrive_newer DatabaseFileName =
     Inr \<lparr> d_Name = ''cloudstash.db'', d_Size = 8192, d_Hash = ''h'' \<rparr> \<and>
   findDBDrive [empty_backend, gdrive_newer, dropbox_older] = Inr gdrive_newer \<and>
   GetFileMetadata failing_backend DatabaseFileName = Inl (BackendError ''timeout'') \<and>
   BackendError ''timeout'' \<noteq> ErrNotFound \<and>
   findDBDrive [empty_backend, failing_backend, dropbox_older] =
     Inl (CouldntGetDBMetadata ''gdrive'' (BackendError ''timeout''))"
  using findDBDrive_first_answer
          [of "[empty_backend]" gdrive_newer
              "\<lparr> d_Name = ''cloudstash.db'', d_Size = 8192, d_Hash = ''h'' \<rparr>"
              "[dropbox_older]"]
        findDBDrive_first_answer
          [of "[empty_backend]" failing_backend _ "[dropbox_older]" "BackendError ''timeout''"]
  by (simp add: empty_backend_def gdrive_newer_def failing_backend_def backend_def
                catalog_copy_def DatabaseFileName_def)

subsection \<open>GetRows\<close>

lemma numInput_limit_offset: "numInput (SelectStarLimitOffset tn Param Param) = 2"
  by (simp add: numInput_def)

text \<open>
  Claim C7. For every limit and offset, \<open>GetRows\<close> returns an error and never a
  list of rows: the statement has two placeholders and \<open>Query()\<close> is called
  with no argument, so that the query is refused (or the statement cannot be
  prepared, when there is no table).
\<close>

theorem GetRows_never_returns_rows:
  "GetRows k c limit offset = Inl (ErrorInQuery (WrongArgCount 2 0)) \<or>
   GetRows k c limit offset = Inl (CouldntPrepareStatement (NoSuchTable ''files''))"
  by (simp add: GetRows_def Prepare_def Query_def numInput_limit_offset split: option.splits)

subsection \<open>The statements on the table files\<close>

lemma catalogD:
  "catalog c \<Longrightarrow> \<exists>t. tables (db c) ''files'' = Some t \<and> t_columns t = files_columns \<and>
      t_constraints t = files_constraints \<and> files_rows c = t_rows t"
  by (auto simp: catalog_def files_rows_def split: option.splits)

lemma db_catalogD:
  "db_catalog c \<Longrightarrow> \<exists>t. tables (db c) ''files'' = Some t \<and> t_columns t = db_files_columns \<and>
      t_constraints t = files_constraints \<and> files_rows c = t_rows t"
  by (auto simp: db_catalog_def files_rows_def split: option.splits)

lemma star_files:
  "t_columns t = files_columns \<Longrightarrow>
   star t r = [SqlInt (r_inode r), SqlText (r_name r), SqlText (r_url r), SqlInt (r_size r),
               SqlInt (r_mode r), SqlInt (r_parent r), SqlInt (r_type r), SqlText (r_hash r)]"
  by (simp add: star_def files_columns_def List.map_filter_simps col_val_def)

lemma db_star_files:
  "t_columns t = db_files_columns \<Longrightarrow>
   star t r = [SqlInt (r_inode r), SqlText (r_name r), SqlText (r_url r), SqlInt (r_size r),
               SqlInt (r_mode r), SqlInt (r_parent r), SqlInt (r_type r)]"
  by (simp add: star_def db_files_columns_def List.map_filter_simps col_val_def)

lemma parseRow_star:
  "t_columns t = files_columns \<Longrightarrow> parseRow (star t r) = Inr (row_md r)"
  by (simp add: star_files parseRow_def row_md_def)

lemma db_parseRow_star:
  "t_columns t = db_files_columns \<Longrightarrow>
   db_parseRow (Inr (star t r # others)) =
     (if 0 \<le> r_type r \<and> r_type r < 2 ^ 64 then Inr (db_row_md r)
      else Inl (ErrorInQuery ScanMismatch))"
  by (simp add: db_star_files db_parseRow_def db_row_md_def)

lemma holds_eq:
  "holds d [(''name'', SqlText n), (''parent'', SqlInt p)] = (\<lambda>r. r_name r = n \<and> r_parent r = p)"
  "holds d [(''inode'', SqlInt i)] = (\<lambda>r. r_inode r = i)"
  "holds d [(''parent'', SqlInt p)] = (\<lambda>r. r_parent r = p)"
  "holds d [(''parent'', SqlInt p), (''type'', SqlInt ty)] = (\<lambda>r. r_parent r = p \<and> r_type r = ty)"
  "holds d [(''name'', SqlInt p), (''parent'', SqlText n)] =
     (\<lambda>r. r_name r = show_int p \<and> numeric d n = SqlInt (r_parent r))"
  by (simp_all add: fun_eq_iff holds_def col_val_def)

lemma Prepare_select:
  "tables d ''files'' = Some t \<Longrightarrow> t_columns t = files_columns \<or> t_columns t = db_files_columns \<Longrightarrow>
   Prepare d (SelectStar ''files'' [(''name'', Param), (''parent'', Param)]) =
     Inr (SelectStar ''files'' [(''name'', Param), (''parent'', Param)]) \<and>
   Prepare d (SelectStar ''files'' [(''inode'', Param)]) = Inr (SelectStar ''files'' [(''inode'', Param)]) \<and>
   Prepare d (SelectStar ''files'' [(''parent'', Param)]) = Inr (SelectStar ''files'' [(''parent'', Param)]) \<and>
   Prepare d (SelectCount ''files'' [(''parent'', Param), (''type'', Param)]) =
     Inr (SelectCount ''files'' [(''parent'', Param), (''type'', Param)])"
  by (auto simp: Prepare_def files_columns_def db_files_columns_def)

lemma Query_select:
  "tables d ''files'' = Some t \<Longrightarrow>
   Query d (SelectStar ''files'' [(''name'', Param), (''parent'', Param)]) [a, b] =
     Inr (map (star t) (filter (holds d [(''name'', a), (''parent'', b)]) (t_rows t)))"
  "tables d ''files'' = Some t \<Longrightarrow>
   Query d (SelectStar ''files'' [(''inode'', Param)]) [a] =
     Inr (map (star t) (filter (holds d [(''inode'', a)]) (t_rows t)))"
  "tables d ''files'' = Some t \<Longrightarrow>
   Query d (SelectStar ''files'' [(''parent'', Param)]) [a] =
     Inr (map (star t) (filter (holds d [(''parent'', a)]) (t_rows t)))"
  "tables d ''files'' = Some t \<Longrightarrow>
   Query d (SelectCount ''files'' [(''parent'', Param), (''type'', Param)]) [a, b] =
     Inr [[SqlInt (int (length (filter (holds d [(''parent'', a), (''type'', b)]) (t_rows t))))]]"
  by (simp_all add: Query_def numInput_def bound_def)

lemma Query_no_table:
  "tables d (stmt_table st) = None \<Longrightarrow> \<exists>e. Query d st args = Inl e"
  by (simp add: Query_def)

lemma fillNLink_Inr:
  "fillNLink k c md = Inr md' \<Longrightarrow>
   md' = md\<lparr>NLink := (if Type md = DrvFile k then 1
                       else int (length (child_folders k c (Inode md))) + 2)\<rparr>"
proof (cases "Type md = DrvFile k")
  case True
  then show ?thesis if "fillNLink k c md = Inr md'"
    using that by (simp add: fillNLink_def)
next
  case False
  assume r: "fillNLink k c md = Inr md'"
  show ?thesis
  proof (cases "tables (db c) ''files''")
    case None
    then have "\<exists>e. Query (db c) (SelectCount ''files'' [(''parent'', Param), (''type'', Param)])
                 [SqlInt (Inode md), SqlInt (DrvFolder k)] = Inl e"
      by (simp add: Query_no_table)
    with r False show ?thesis
      by (auto simp: fillNLink_def Prepare_def split: sum.splits option.splits list.splits)
  next
    case (Some t)
    with r False show ?thesis
      by (auto simp: fillNLink_def Prepare_def Query_select holds_eq child_folders_def files_rows_def
               split: sum.splits list.splits)
  qed
qed

lemma fillNLink_catalog:
  "catalog c \<Longrightarrow>
   fillNLink k c md =
     Inr (md\<lparr>NLink := (if Type md = DrvFile k then 1
                        else int (length (child_folders k c (Inode md))) + 2)\<rparr>)"
  by (auto simp: fillNLink_def child_folders_def Prepare_select Query_select holds_eq dest!: catalogD)


lemma Get_catalog:
  "catalog c \<Longrightarrow>
   Get k c inode =
     (case filter (\<lambda>r. r_inode r = inode) (files_rows c) of
        [] \<Rightarrow> Inl ErrNotFound
      | r # rs \<Rightarrow>
          Inr ((row_md r)\<lparr>NLink := (if r_type r = DrvFile k then 1
                        else int (length (child_folders k c (r_inode r))) + 2)\<rparr>))"
  apply (frule catalogD)
  apply (auto simp: Get_def Prepare_select Query_select holds_eq parseRow_star fillNLink_catalog
           split: list.splits)
   apply (simp_all add: row_md_def)
  done

lemma collect_rows_Inr:
  "collect_rows k c rows acc = Inr mds \<Longrightarrow> md \<in> set mds \<Longrightarrow>
   md \<in> set acc \<or> (\<exists>md0. fillNLink k c md0 = Inr md)"
proof (induction rows arbitrary: acc)
  case Nil
  then show ?case by simp
next
  case (Cons row rows)
  then show ?case
    by (fastforce split: sum.splits)
qed

lemma collect_rows_catalog:
  "catalog c \<Longrightarrow> t_columns t = files_columns \<Longrightarrow>
   collect_rows k c (map (star t) rs) acc =
     Inr (acc @ map (\<lambda>r. (row_md r)\<lparr>NLink := (if r_type r = DrvFile k then 1
                        else int (length (child_folders k c (r_inode r))) + 2)\<rparr>) rs)"
  by (induction rs arbitrary: acc) (simp_all add: parseRow_star fillNLink_catalog row_md_def)

lemma GetChildren_catalog:
  "catalog c \<Longrightarrow>
   GetChildren k c parent =
     Inr (map (\<lambda>r. (row_md r)\<lparr>NLink := (if r_type r = DrvFile k then 1
                        else int (length (child_folders k c (r_inode r))) + 2)\<rparr>)
            (filter (\<lambda>r. r_parent r = parent) (files_rows c)))"
  apply (frule catalogD)
  apply (auto simp: GetChildren_def Prepare_select Query_select holds_eq collect_rows_catalog)
  done

lemma Get_Inr:
  "Get k c inode = Inr md \<Longrightarrow> \<exists>md0. fillNLink k c md0 = Inr md"
  by (auto simp: Get_def split: sum.splits list.splits)

lemma GetChildren_Inr:
  "GetChildren k c parent = Inr mds \<Longrightarrow> md \<in> set mds \<Longrightarrow> \<exists>md0. fillNLink k c md0 = Inr md"
  by (auto simp: GetChildren_def split: sum.splits dest: collect_rows_Inr)

lemma AddDirectory_Inr:
  "fst (AddDirectory k c parent name mode) = Inr md \<Longrightarrow> NLink md = 2"
  by (auto simp: AddDirectory_def Let_def split: sum.splits list.splits)

lemma example_catalog: "catalog example_client" "files_rows example_client = example_rows"
  by (simp_all add: catalog_def files_rows_def example_client_def)

lemma example_codes_simps: "DrvFile example_codes = 0" "DrvFolder example_codes = 1"
  by (simp_all add: example_codes_def)

lemma example_child_folders:
  "length (child_folders example_codes example_client 2) = 1"
  "length (child_folders example_codes example_client 1) = 1"
  by (simp_all add: child_folders_def example_catalog example_rows_def example_codes_simps)

lemma example_Get:
  "Get example_codes example_client 2 =
     Inr \<lparr> Inode = 2, Name = ''docs'', URL = [], Size = 0, Mode = 493, Parent = 1,
           Type = 1, Hash = [], NLink = 3 \<rparr>"
  "Get example_codes example_client 3 =
     Inr \<lparr> Inode = 3, Name = ''a.txt'', URL = ''dropbox://x1'', Size = 0, Mode = 420,
           Parent = 1, Type = 0, Hash = ''h1'', NLink = 1 \<rparr>"
  by (simp_all add: Get_catalog example_catalog example_rows_def row_md_def
                    example_codes_simps example_child_folders)

lemma example_GetChildren:
  "GetChildren example_codes example_client 1 =
     Inr [\<lparr> Inode = 2, Name = ''docs'', URL = [], Size = 0, Mode = 493, Parent = 1,
           Type = 1, Hash = [], NLink = 3 \<rparr>,
          \<lparr> Inode = 3, Name = ''a.txt'', URL = ''dropbox://x1'', Size = 0, Mode = 420,
           Parent = 1, Type = 0, Hash = ''h1'', NLink = 1 \<rparr>]"
  by (simp add: GetChildren_catalog example_catalog example_rows_def row_md_def
                example_codes_simps example_child_folders)

lemma fold_max_ge: "(a::int) \<le> fold max xs a"
  by (induction xs arbitrary: a) (auto intro: order_trans [OF max.cobounded2])

lemma fold_max_mem: "(x::int) \<in> set xs \<Longrightarrow> x \<le> fold max xs a"
proof (induction xs arbitrary: a)
  case Nil
  then show ?case by simp
next
  case (Cons y ys)
  show ?case
  proof (cases "x = y")
    case True
    have "y \<le> max y a" by simp
    also have "\<dots> \<le> fold max ys (max y a)" by (rule fold_max_ge)
    finally show ?thesis using True by simp
  next
    case False
    with Cons show ?thesis by simp
  qed
qed

lemma next_rowid_fresh: "r \<in> set (t_rows t) \<Longrightarrow> r_inode r < next_rowid t"
proof -
  assume "r \<in> set (t_rows t)"
  then have "r_inode r \<le> fold max (map r_inode (t_rows t)) 0"
    by (intro fold_max_mem) simp
  then show ?thesis by (simp add: next_rowid_def)
qed

lemma build_row_directory:
  "t_columns t = files_columns \<Longrightarrow>
   build_row num t [(''name'', SqlText n), (''mode'', SqlInt m), (''parent'', SqlInt p),
                    (''type'', SqlInt ty)] =
     Inr (new_row t n [] 0 m p ty [])"
  by (simp add: build_row_def int_field_def text_field_def field_value_def files_columns_def
                then_do_def to_int_def to_text_def new_row_def)


lemma next_rowid_neq: "r \<in> set (t_rows t) \<Longrightarrow> r_inode r \<noteq> next_rowid t"
  using next_rowid_fresh [of r t] by simp

lemma violations_files:
  "t_columns t = files_columns \<Longrightarrow> t_constraints t = files_constraints \<Longrightarrow>
   violations t (new_row t n u s m p ty h) =
     (if \<exists>r \<in> set (t_rows t). r_name r = n \<and> r_parent r = p then [[''name'', ''parent'']] else [])"
  by (auto simp: violations_def unique_keys_def files_columns_def files_constraints_def
                 same_key_def col_val_def list_ex_iff new_row_def next_rowid_neq)


lemma Prepare_insert:
  "tables d ''files'' = Some t \<Longrightarrow> t_columns t = files_columns \<Longrightarrow>
   Prepare d (InsertInto ''files''
                [(''name'', Param), (''mode'', Param), (''parent'', Param), (''type'', Param)]) =
     Inr (InsertInto ''files''
                [(''name'', Param), (''mode'', Param), (''parent'', Param), (''type'', Param)]) \<and>
   Prepare d (InsertInto ''files''
                [(''name'', Param), (''url'', Param), (''size'', Param), (''mode'', Param),
                 (''parent'', Param), (''type'', Param), (''hash'', Param)]) =
     Inr (InsertInto ''files''
                [(''name'', Param), (''url'', Param), (''size'', Param), (''mode'', Param),
                 (''parent'', Param), (''type'', Param), (''hash'', Param)])"
  by (simp add: Prepare_def files_columns_def)

lemma Exec_insert_directory:
  assumes "tables d ''files'' = Some t" "t_columns t = files_columns"
    "t_constraints t = files_constraints"
  shows "Exec d (InsertInto ''files''
                [(''name'', Param), (''mode'', Param), (''parent'', Param), (''type'', Param)])
           [SqlText n, SqlInt m, SqlInt p, SqlInt ty] =
     (if \<exists>r \<in> set (t_rows t). r_name r = n \<and> r_parent r = p
      then Inl (UniqueConstraint [''name'', ''parent''])
      else Inr (d\<lparr>tables := (tables d)(''files'' \<mapsto>
                  t\<lparr>t_rows := t_rows t @ [new_row t n [] 0 m p ty []],
                    t_seq := max (t_seq t) (next_rowid t)\<rparr>)\<rparr>))"
proof -
  have "Exec d (InsertInto ''files''
                [(''name'', Param), (''mode'', Param), (''parent'', Param), (''type'', Param)])
           [SqlText n, SqlInt m, SqlInt p, SqlInt ty] =
        insert_row d ''files'' [(''name'', SqlText n), (''mode'', SqlInt m),
                                (''parent'', SqlInt p), (''type'', SqlInt ty)]"
    by (simp add: Exec_def numInput_def bound_def)
  also have "\<dots> = (case violations t (new_row t n [] 0 m p ty []) of
              cs # others \<Rightarrow> Inl (UniqueConstraint cs)
            | [] \<Rightarrow> Inr (d\<lparr>tables := (tables d)(''files'' \<mapsto>
                  t\<lparr>t_rows := t_rows t @ [new_row t n [] 0 m p ty []],
                    t_seq := max (t_seq t) (r_inode (new_row t n [] 0 m p ty []))\<rparr>)\<rparr>))"
    using assms by (simp add: insert_row_def build_row_directory then_do_def)
  finally show ?thesis
    using assms by (simp add: violations_files) (simp add: new_row_def)
qed





lemma AddDirectory_new:
  assumes "catalog c" "tables (db c) ''files'' = Some t"
    "\<not> (\<exists>r \<in> set (files_rows c). r_name r = name \<and> r_parent r = parent)"
  shows "AddDirectory k c parent name mode =
     (Inr ((row_md (new_row t name [] 0 mode parent (DrvFolder k) []))\<lparr>NLink := 2\<rparr>),
      with_row c (new_row t name [] 0 mode parent (DrvFolder k) []))"
proof -
  from assms(1,2) have t: "t_columns t = files_columns" "t_constraints t = files_constraints"
    "files_rows c = t_rows t"
    by (auto dest!: catalogD)
  have f: "filter (\<lambda>r. r_name r = name \<and> r_parent r = parent) (t_rows t) = []"
    using assms(3) t by (auto simp: filter_empty_conv)
  show ?thesis
    using assms t f
    by (simp add: AddDirectory_def Prepare_insert Exec_insert_directory Let_def
                  Prepare_select Query_select holds_eq parseRow_star with_row_def new_row_def)
qed



lemma db_InitDB_fresh_eq:
  "db_InitDB f (fresh num) =
     (None, \<lparr> numeric = num,
              tables = [''files'' \<mapsto>
                \<lparr> t_columns = db_files_columns, t_constraints = files_constraints,
                  t_rows = [root_row 1 f], t_seq = 1 \<rparr>] \<rparr>)"
  by (simp add: db_InitDB_def db_tableSchemas_def fresh_def Prepare_def Exec_def numInput_def
                bound_def insert_row_def build_row_def int_field_def text_field_def
                field_value_def then_do_def to_int_def to_text_def violations_def
                unique_keys_def same_key_def root_row_def db_files_columns_def
                files_constraints_def)

subsection \<open>The derived link count\<close>

text \<open>
  Claim C3. For every entry that \<open>Get\<close> or \<open>GetChildren\<close> of the sqlite client
  returns, \<open>NLink\<close> is 1 when the type of the entry is FILE, and 2 plus the number
  of the rows whose parent is the inode of the entry and whose type is FOLDER
  when its type is FOLDER; and the directory that \<open>AddDirectory\<close> returns has
  \<open>NLink = 2\<close>. (The two type codes are different numbers.)
\<close>

theorem nlink_derivation:
  "DrvFile k \<noteq> DrvFolder k \<Longrightarrow>
   (Get k c inode = Inr md \<or> (GetChildren k c parent = Inr mds \<and> md \<in> set mds) \<longrightarrow>
      (Type md = DrvFile k \<longrightarrow> NLink md = 1) \<and>
      (Type md = DrvFolder k \<longrightarrow>
         NLink md = 2 + int (length (child_folders k c (Inode md))))) \<and>
   (fst (AddDirectory k c parent name mode) = Inr md' \<longrightarrow> NLink md' = 2)"
proof (intro conjI impI)
  assume k: "DrvFile k \<noteq> DrvFolder k"
  assume "Get k c inode = Inr md \<or> (GetChildren k c parent = Inr mds \<and> md \<in> set mds)"
  then obtain md0 where f: "fillNLink k c md0 = Inr md"
    using Get_Inr GetChildren_Inr by blast
  note eq = fillNLink_Inr [OF f]
  have same: "Type md = Type md0" "Inode md = Inode md0"
    by (subst eq, simp)+
  have n: "NLink md = (if Type md0 = DrvFile k then 1
                       else int (length (child_folders k c (Inode md0))) + 2)"
    by (subst eq) simp
  show "NLink md = 1" if "Type md = DrvFile k"
    using that n same by simp
  show "NLink md = 2 + int (length (child_folders k c (Inode md)))" if "Type md = DrvFolder k"
    using that k n same by simp
next
  assume "fst (AddDirectory k c parent name mode) = Inr md'"
  then show "NLink md' = 2" by (rule AddDirectory_Inr)
qed

theorem nlink_derivation_witness:
  "DrvFile example_codes \<noteq> DrvFolder example_codes \<and>
   Get example_codes example_client 3 =
     Inr \<lparr> Inode = 3, Name = ''a.txt'', URL = ''dropbox://x1'', Size = 0, Mode = 420,
           Parent = 1, Type = 0, Hash = ''h1'', NLink = 1 \<rparr> \<and>
   DrvFile example_codes = 0 \<and>
   GetChildren example_codes example_client 1 =
     Inr [\<lparr> Inode = 2, Name = ''docs'', URL = [], Size = 0, Mode = 493, Parent = 1,
           Type = 1, Hash = [], NLink = 3 \<rparr>,
          \<lparr> Inode = 3, Name = ''a.txt'', URL = ''dropbox://x1'', Size = 0, Mode = 420,
           Parent = 1, Type = 0, Hash = ''h1'', NLink = 1 \<rparr>] \<and>
   DrvFolder example_codes = 1 \<and>
   length (child_folders example_codes example_client 2) = 1 \<and>
   fst (AddDirectory example_codes example_client 1 ''new'' 493) =
     Inr \<lparr> Inode = 5, Name = ''new'', URL = [], Size = 0, Mode = 493, Parent = 1,
           Type = 1, Hash = [], NLink = 2 \<rparr>"
proof -
  let ?docs = "\<lparr> Inode = 2, Name = ''docs'', URL = [], Size = 0, Mode = 493, Parent = 1,
           Type = 1, Hash = [], NLink = 3 \<rparr>"
  let ?file = "\<lparr> Inode = 3, Name = ''a.txt'', URL = ''dropbox://x1'', Size = 0, Mode = 420,
           Parent = 1, Type = 0, Hash = ''h1'', NLink = 1 \<rparr>"
  let ?new = "\<lparr> Inode = 5, Name = ''new'', URL = [], Size = 0, Mode = 493, Parent = 1,
           Type = 1, Hash = [], NLink = 2 \<rparr>"
  have k: "DrvFile example_codes \<noteq> DrvFolder example_codes"
    by (simp add: example_codes_simps)
  have t: "tables (db example_client) ''files'' =
             Some \<lparr> t_columns = files_columns, t_constraints = files_constraints,
                    t_rows = example_rows, t_seq = 4 \<rparr>"
    by (simp add: example_client_def)
  have a: "fst (AddDirectory example_codes example_client 1 ''new'' 493) = Inr ?new"
    by (subst AddDirectory_new [OF example_catalog(1) t])
       (simp_all add: example_catalog example_rows_def row_md_def new_row_def next_rowid_def
                      example_codes_simps)
  from nlink_derivation [of example_codes example_client 3 ?file 1 "[?docs, ?file]"
                           "''new''" 493 ?new]
       nlink_derivation [of example_codes example_client 0 ?docs 1 "[?docs, ?file]"]
  show ?thesis
    using a k by (simp add: example_Get example_GetChildren example_codes_simps
                  example_child_folders)
qed

subsection \<open>Lookups that find nothing, insertions that collide\<close>

lemma uint64_arg_small: "uint w < 2 ^ 63 \<Longrightarrow> uint64_arg w = Inr (SqlInt (uint w))"
  by (simp add: uint64_arg_def)

lemma uint64_arg_large: "\<not> uint w < 2 ^ 63 \<Longrightarrow> uint64_arg w = Inl UnsupportedUint64"
  by (simp add: uint64_arg_def)

lemma db_scan_first:
  "t_columns t = db_files_columns \<Longrightarrow>
   db_parseRow (Inr (map (star t) rs)) =
     (case rs of
        [] \<Rightarrow> Inl ErrNotFound
      | r # others \<Rightarrow>
          (if 0 \<le> r_type r \<and> r_type r < 2 ^ 64 then Inr (db_row_md r)
           else Inl (ErrorInQuery ScanMismatch)))"
  by (cases rs) (simp_all add: db_parseRow_star, simp add: db_parseRow_def)

lemma db_Search_catalog:
  "db_catalog c \<Longrightarrow>
   db_Search c parent name =
     (if uint parent < 2 ^ 63
      then case filter (\<lambda>r. r_name r = show_int (uint parent) \<and>
                            numeric (db c) name = SqlInt (r_parent r)) (files_rows c) of
             [] \<Rightarrow> Inl ErrNotFound
           | r # others \<Rightarrow>
               (if 0 \<le> r_type r \<and> r_type r < 2 ^ 64 then Inr (db_row_md r)
                else Inl (ErrorInQuery ScanMismatch))
      else Inl (ErrorInQuery UnsupportedUint64))"
  apply (frule db_catalogD)
  apply (auto simp: db_Search_def Prepare_select QueryRow_def uint64_arg_small uint64_arg_large
                    then_do_def Query_select holds_eq db_scan_first)
  apply (simp add: db_parseRow_def)
  done

lemma db_Get_catalog:
  "db_catalog c \<Longrightarrow>
   db_Get c inode =
     (if uint inode < 2 ^ 63
      then case filter (\<lambda>r. r_inode r = uint inode) (files_rows c) of
             [] \<Rightarrow> Inl ErrNotFound
           | r # others \<Rightarrow>
               (if 0 \<le> r_type r \<and> r_type r < 2 ^ 64 then Inr (db_row_md r)
                else Inl (ErrorInQuery ScanMismatch))
      else Inl (ErrorInQuery UnsupportedUint64))"
  apply (frule db_catalogD)
  apply (auto simp: db_Get_def Prepare_select QueryRow_def uint64_arg_small uint64_arg_large
                    then_do_def Query_select holds_eq db_scan_first)
  apply (simp add: db_parseRow_def)
  done

lemma filter_hd_mem: "filter P xs = r # others \<Longrightarrow> r \<in> set xs \<and> P r"
proof -
  assume "filter P xs = r # others"
  then have "r \<in> set (filter P xs)" by simp
  then show ?thesis by simp
qed

lemma db_Search_Inr:
  assumes "db_catalog c" "db_Search c parent name = Inr md"
  shows "\<exists>r \<in> set (files_rows c). md = db_row_md r \<and> 0 \<le> r_type r \<and> r_type r < 2 ^ 64 \<and>
           r_name r = show_int (uint parent) \<and> numeric (db c) name = SqlInt (r_parent r)"
  using assms(2) unfolding db_Search_catalog [OF assms(1)]
  by (auto split: if_splits list.splits dest!: filter_hd_mem)

lemma db_Get_Inr:
  assumes "db_catalog c" "db_Get c inode = Inr md"
  shows "\<exists>r \<in> set (files_rows c). md = db_row_md r \<and> 0 \<le> r_type r \<and> r_type r < 2 ^ 64 \<and>
           r_inode r = uint inode"
  using assms(2) unfolding db_Get_catalog [OF assms(1)]
  by (auto split: if_splits list.splits dest!: filter_hd_mem)




lemma db_example_catalog:
  "db_catalog db_example_client" "files_rows db_example_client = db_example_rows"
  "numeric (db db_example_client) = decimal_numeric"
  by (simp_all add: db_catalog_def files_rows_def db_example_client_def)




subsection \<open>The order of the arguments of Search\<close>







subsection \<open>parseRow of package db\<close>

lemma uint_of_int64: "0 \<le> x \<Longrightarrow> x < 2 ^ 64 \<Longrightarrow> uint (word_of_int x :: 64 word) = x"
  by (simp add: uint_word_of_int_eq take_bit_int_eq_self)

lemma db_row_md_fields:
  "0 \<le> r_type r \<Longrightarrow> r_type r < 2 ^ 64 \<Longrightarrow>
   c_Inode (db_row_md r) = r_inode r \<and> c_Name (db_row_md r) = r_name r \<and>
   c_URL (db_row_md r) = r_url r \<and> c_Size (db_row_md r) = r_size r \<and>
   c_Mode (db_row_md r) = r_mode r \<and> c_Type (db_row_md r) = r_parent r \<and>
   uint (c_Parent (db_row_md r)) = r_type r"
  by (simp add: db_row_md_def uint_of_int64)

lemma db_InitDB_client:
  "db_catalog \<lparr> db = snd (db_InitDB f (fresh num)) \<rparr>"
  "files_rows \<lparr> db = snd (db_InitDB f (fresh num)) \<rparr> = [root_row 1 f]"
  by (simp_all add: db_InitDB_fresh_eq db_catalog_def files_rows_def)

text \<open>
  Claim C4, as stated, fails in its last part: for every row of the table,
  \<open>Get(inode)\<close> is not to return the stored parent and type in the fields of
  those names. The database is the one that \<open>InitDB\<close> of package db creates
  when \<open>DRV_FOLDER\<close> is 1: its root row has parent 1 and type 1, and \<open>Get(1)\<close>
  returns \<open>Parent = 1\<close> and \<open>Type = 1\<close>, the stored pair.
\<close>

theorem parseRow_swap_counterexample:
  "files_rows \<lparr> db = snd (db_InitDB 1 (fresh decimal_numeric)) \<rparr> = [root_row 1 1] \<and>
   r_inode (root_row 1 1) = 1 \<and> r_parent (root_row 1 1) = 1 \<and> r_type (root_row 1 1) = 1 \<and>
   db_Get \<lparr> db = snd (db_InitDB 1 (fresh decimal_numeric)) \<rparr> 1 =
     Inr \<lparr> c_Inode = 1, c_Name = [], c_URL = [], c_Size = 0, c_Mode = 493,
           c_Type = 1, c_Parent = 1, c_NLink = 0 \<rparr>"
  by (simp add: db_Get_catalog db_InitDB_client) (simp add: root_row_def db_row_md_def)

text \<open>
  Claim C4, amended. \<open>parseRow\<close> of package db scans the columns, which the
  table orders (inode, name, url, size, mode, parent, type), into \<open>Inode\<close>,
  \<open>Name\<close>, \<open>URL\<close>, \<open>Size\<close>, \<open>Mode\<close>, \<open>Type\<close>, \<open>Parent\<close>. So every metadata value
  that \<open>Search\<close> or \<open>Get\<close> of this client returns comes from a row of the
  table, with the stored parent in \<open>Type\<close> and the stored type code in
  \<open>Parent\<close>; the two fields hold the stored parent and type in their own
  places exactly when the stored parent and the stored type code are the same
  number.
\<close>

theorem parseRow_swaps_type_and_parent:
  "db_catalog c \<Longrightarrow> db_Search c parent name = Inr md \<or> db_Get c inode = Inr md \<Longrightarrow>
   \<exists>r \<in> set (files_rows c).
     c_Inode md = r_inode r \<and> c_Name md = r_name r \<and> c_URL md = r_url r \<and>
     c_Size md = r_size r \<and> c_Mode md = r_mode r \<and>
     c_Type md = r_parent r \<and> uint (c_Parent md) = r_type r \<and>
     ((uint (c_Parent md) = r_parent r \<and> c_Type md = r_type r) = (r_parent r = r_type r))"
proof -
  assume c: "db_catalog c"
    and "db_Search c parent name = Inr md \<or> db_Get c inode = Inr md"
  then obtain r where r: "r \<in> set (files_rows c)" "md = db_row_md r"
      "0 \<le> r_type r" "r_type r < 2 ^ 64"
    using db_Search_Inr [OF c] db_Get_Inr [OF c] by blast
  from db_row_md_fields [OF r(3,4)] r(1,2) show ?thesis
    by (intro bexI [of _ r]) auto
qed

lemma db_example_Get:
  "db_Get db_example_client 3 =
     Inr \<lparr> c_Inode = 3, c_Name = ''1'', c_URL = ''dropbox://x1'', c_Size = 0, c_Mode = 420,
           c_Type = 7, c_Parent = 0, c_NLink = 0 \<rparr>"
  by (simp add: db_Get_catalog db_example_catalog db_example_rows_def db_row_md_def)

theorem parseRow_swaps_type_and_parent_witness:
  "db_catalog db_example_client \<and>
   db_Get db_example_client 3 =
     Inr \<lparr> c_Inode = 3, c_Name = ''1'', c_URL = ''dropbox://x1'', c_Size = 0, c_Mode = 420,
           c_Type = 7, c_Parent = 0, c_NLink = 0 \<rparr> \<and>
   list_ex (\<lambda>r. r_inode r = 3 \<and> r_parent r = 7 \<and> r_type r = 0) (files_rows db_example_client)"
  using parseRow_swaps_type_and_parent
          [where c = db_example_client and inode = 3 and parent = 1 and name = "''7''"
             and md = "\<lparr> c_Inode = 3, c_Name = ''1'', c_URL = ''dropbox://x1'', c_Size = 0,
                        c_Mode = 420, c_Type = 7, c_Parent = 0, c_NLink = 0 \<rparr>"]
  by (simp add: db_example_catalog db_example_Get db_example_rows_def)

subsection \<open>InitDB on a fresh path\<close>



subsection \<open>The remote lock\<close>

lemma released_mono: "released w t \<Longrightarrow> t \<le> t' \<Longrightarrow> released w t'"
  by (auto simp: released_def split: option.splits)








end
